theory Spec2Isabelle
  imports Complex_Main "HOL-Library.Multiset"
begin

section \<open>Strings as Python sees them\<close>

text \<open>
  Python strings are modelled as \<^typ>\<open>string\<close> (lists of 8-bit characters), so the
  development covers ASCII text. Scores are Python floats in the source; here they are
  rationals, so every comparison and every sum is the exact one (rounding of binary
  floating point is outside the embedding).

  A cell of the job catalog that pandas reports as missing (\<open>pd.isna\<close>) is \<open>None\<close>;
  a cell holding text is \<open>Some\<close> of that text.
\<close>

text \<open>\<open>str.lower()\<close> on ASCII text: the 26 capital letters are mapped, the rest is kept.\<close>

definition lower_char :: "char \<Rightarrow> char" where
  "lower_char c =
     (case map_of (zip ''ABCDEFGHIJKLMNOPQRSTUVWXYZ'' ''abcdefghijklmnopqrstuvwxyz'') c of
        Some d \<Rightarrow> d
      | None \<Rightarrow> c)"

definition lower :: "string \<Rightarrow> string" where
  "lower s = map lower_char s"

text \<open>\<open>str.isspace()\<close> restricted to ASCII: tab, line feed, vertical tab, form feed,
  carriage return, the four separators 0x1C .. 0x1F and the blank.\<close>

definition is_space :: "char \<Rightarrow> bool" where
  "is_space c \<longleftrightarrow>
     c \<in> set [CHR 0x09, CHR 0x0A, CHR 0x0B, CHR 0x0C, CHR 0x0D,
               CHR 0x1C, CHR 0x1D, CHR 0x1E, CHR 0x1F, CHR '' '']"

text \<open>\<open>s.strip()\<close>: white space is removed at both ends.\<close>

definition strip :: "string \<Rightarrow> string" where
  "strip s = rev (dropWhile is_space (rev (dropWhile is_space s)))"

text \<open>\<open>s.split('\n')\<close>: the pieces between line feeds; never the empty list.\<close>

fun split_nl_acc :: "string \<Rightarrow> string \<Rightarrow> string list" where
  "split_nl_acc cur [] = [cur]"
| "split_nl_acc cur (c # cs) =
     (if c = CHR 0x0A then cur # split_nl_acc [] cs else split_nl_acc (cur @ [c]) cs)"

definition split_nl :: "string \<Rightarrow> string list" where
  "split_nl s = split_nl_acc [] s"

text \<open>\<open>s.split()\<close>: the maximal runs of characters that are not white space.\<close>

fun split_ws_acc :: "string \<Rightarrow> string \<Rightarrow> string list" where
  "split_ws_acc cur [] = (if cur = [] then [] else [cur])"
| "split_ws_acc cur (c # cs) =
     (if is_space c
      then (if cur = [] then split_ws_acc [] cs else cur # split_ws_acc [] cs)
      else split_ws_acc (cur @ [c]) cs)"

definition split_ws :: "string \<Rightarrow> string list" where
  "split_ws s = split_ws_acc [] s"

text \<open>\<open>sep.join(parts)\<close>.\<close>

fun join :: "string \<Rightarrow> string list \<Rightarrow> string" where
  "join sep [] = []"
| "join sep [p] = p"
| "join sep (p # q # ps) = p @ sep @ join sep (q # ps)"

text \<open>\<open>a in b\<close> on strings: \<open>a\<close> occurs in \<open>b\<close> as a contiguous piece.\<close>

fun starts_with :: "string \<Rightarrow> string \<Rightarrow> bool" where
  "starts_with [] t = True"
| "starts_with (a # s) [] = False"
| "starts_with (a # s) (b # t) = (a = b \<and> starts_with s t)"

fun contains :: "string \<Rightarrow> string \<Rightarrow> bool" where
  "contains s [] = (s = [])"
| "contains s (c # t) = (starts_with s (c # t) \<or> contains s t)"

text \<open>\<open>str(x)\<close> of a catalog cell: pandas' missing value prints as \<open>nan\<close>.\<close>

definition str_of :: "string option \<Rightarrow> string" where
  "str_of x = (case x of None \<Rightarrow> ''nan'' | Some s \<Rightarrow> s)"

section \<open>Data model\<close>

text \<open>
  A row of the job catalog (\<open>jobs_df\<close>). The matcher reads the columns \<open>category\<close>
  (used as the job title), \<open>job_description\<close>, \<open>company\<close>, \<open>location\<close>,
  \<open>post_link\<close> and \<open>keywords\<close> (field \<open>keywords_cell\<close>); each may be missing.
\<close>

record job_row =
  category :: "string option"
  job_description :: "string option"
  company :: "string option"
  location :: "string option"
  post_link :: "string option"
  keywords_cell :: "string option"

text \<open>
  The dictionary \<open>resume_data\<close>, reduced to the three keys the scorer reads. A key may
  be absent from a dictionary, hence the options: \<open>resume_data['skills']\<close> and
  \<open>resume_data['experience_years']\<close> raise \<open>KeyError\<close> on an absent key, whereas
  \<open>resume_data.get('desired_roles', [])\<close> falls back to the empty list.
\<close>

record resume_data =
  skills :: "string list option"
  experience_years :: "rat option"
  desired_roles :: "string list option"

datatype error = KeyError

text \<open>The dictionary returned by \<open>calculate_overall_score\<close>.\<close>

record scores =
  overall :: rat
  skill_score :: rat
  exp_score :: rat
  title_score :: rat
  estimated_level :: string

text \<open>One row of the result frame built by \<open>finding_matching_jobs\<close>.\<close>

record match_result =
  res_title :: string
  res_company :: "string option"
  res_location :: "string option"
  experience_level :: string
  res_description :: "string option"
  res_post_link :: "string option"
  res_keywords :: "string option"
  match_score :: rat
  res_skill_score :: rat
  res_exp_score :: rat
  res_title_score :: rat

section \<open>The scoring functions of \<open>JobMatcher\<close>\<close>

text \<open>\<open>extract_title_from_description\<close>: the last \<open>return\<close> of the source is the
  branch for an empty list of lines.\<close>

definition extract_title_from_description :: "string option \<Rightarrow> string" where
  "extract_title_from_description description =
     (case description of
        None \<Rightarrow> ''Unknown Position''
      | Some d \<Rightarrow>
          (let first_part = take 200 d;
               lines = split_nl first_part
           in case lines of
                l # _ \<Rightarrow> take 100 (strip l)
              | [] \<Rightarrow> ''Unknown Position''))"

text \<open>\<open>calculate_skill_match\<close>: \<open>job_keywords\<close> joins the text only when it is
  given, non-empty and not missing.\<close>

definition calculate_skill_match ::
  "string list \<Rightarrow> string option \<Rightarrow> string option \<Rightarrow> string option \<Rightarrow> rat" where
  "calculate_skill_match resume_skills job_desc job_title job_keywords =
     (if resume_skills = [] then 0
      else
        let text_parts = [str_of job_desc, str_of job_title] @
              (case job_keywords of
                 None \<Rightarrow> []
               | Some k \<Rightarrow> if k = [] then [] else [k]);
            combined_text = lower (join '' '' text_parts);
            matched_count =
              length (filter (\<lambda>skill. contains (lower skill) combined_text) resume_skills)
        in of_nat matched_count / of_nat (length resume_skills))"

text \<open>\<open>estimate_experience_level\<close>: a missing description or title counts as the
  empty string; the \<open>elif\<close> chain is tried from the top.\<close>

definition any_in :: "string list \<Rightarrow> string \<Rightarrow> bool" where
  "any_in ws combined = list_ex (\<lambda>word. contains word combined) ws"

definition estimate_experience_level :: "string option \<Rightarrow> string option \<Rightarrow> string" where
  "estimate_experience_level job_desc job_title =
     (let d = (case job_desc of None \<Rightarrow> [] | Some x \<Rightarrow> x);
          t = (case job_title of None \<Rightarrow> [] | Some x \<Rightarrow> x);
          combined = lower (d @ '' '' @ t)
      in if any_in [''intern'', ''internship''] combined then ''Internship''
         else if any_in [''entry level'', ''junior'', ''graduate'', ''associate''] combined
           then ''Entry level''
         else if any_in [''senior'', ''sr.'', ''lead'', ''principal''] combined
           then ''Mid-Senior level''
         else if any_in [''director'', ''head of'', ''vp'', ''vice president''] combined
           then ''Director''
         else if any_in [''chief'', ''cto'', ''ceo'', ''executive''] combined
           then ''Executive''
         else ''Mid-Senior level'')"

text \<open>\<open>calculate_experience_match\<close> with its dictionary \<open>level_ranges\<close>.\<close>

definition level_ranges :: "(string \<times> rat \<times> rat) list" where
  "level_ranges =
     [(''Internship'', (0, 1)),
      (''Entry level'', (0, 2)),
      (''Associate'', (1, 3)),
      (''Mid-Senior level'', (3, 8)),
      (''Director'', (8, 15)),
      (''Executive'', (15, 30))]"

definition calculate_experience_match :: "rat \<Rightarrow> string option \<Rightarrow> rat" where
  "calculate_experience_match resume_years job_level =
     (case job_level of
        None \<Rightarrow> 1/2
      | Some lv \<Rightarrow>
          if lv = [] then 1/2
          else
            (case map_of level_ranges lv of
               None \<Rightarrow> 1/2
             | Some (min_years, max_years) \<Rightarrow>
                 if min_years \<le> resume_years \<and> resume_years \<le> max_years then 1
                 else if resume_years < min_years then
                   (let gap = min_years - resume_years
                    in if gap \<le> 1/2 then 95/100
                       else if gap \<le> 1 then 85/100
                       else if gap \<le> 3/2 then 70/100
                       else if gap \<le> 2 then 55/100
                       else 30/100)
                 else
                   (let gap = resume_years - max_years
                    in if gap \<le> 1 then 90/100
                       else if gap \<le> 2 then 75/100
                       else if gap \<le> 3 then 60/100
                       else 40/100)))"

text \<open>\<open>calculate_title_match\<close>: the loop over the desired roles, which returns as
  soon as a role has a word in common with the title.\<close>

fun title_scan :: "string \<Rightarrow> string list \<Rightarrow> rat" where
  "title_scan job_title [] = 3/10"
| "title_scan job_title (desired # rest) =
     (let desired_words = set (split_ws (lower desired));
          title_words = set (split_ws job_title);
          common_words = desired_words \<inter> title_words
      in if card common_words \<ge> 2 then 1
         else if card common_words = 1 then 7/10
         else title_scan job_title rest)"

definition calculate_title_match :: "string option \<Rightarrow> string list \<Rightarrow> rat" where
  "calculate_title_match job_title resume_desired_roles =
     (case job_title of
        None \<Rightarrow> 1/2
      | Some t \<Rightarrow>
          if resume_desired_roles = [] then 1/2
          else title_scan (lower t) resume_desired_roles)"

text \<open>The title a row is scored and listed under: \<open>category\<close>, or the title taken from
  the description when \<open>category\<close> is missing or empty (the same three lines occur in
  \<open>calculate_overall_score\<close> and in \<open>finding_matching_jobs\<close>).\<close>

definition resolved_title :: "job_row \<Rightarrow> string" where
  "resolved_title job =
     (case category job of
        None \<Rightarrow> extract_title_from_description (job_description job)
      | Some c \<Rightarrow>
          if c = [] then extract_title_from_description (job_description job) else c)"

text \<open>\<open>calculate_overall_score\<close>: \<open>calculate_skill_match\<close> is called with three
  arguments, so its \<open>job_keywords\<close> is the default \<open>None\<close>.\<close>

definition calculate_overall_score :: "resume_data \<Rightarrow> job_row \<Rightarrow> error + scores" where
  "calculate_overall_score resume job =
     (let job_title = resolved_title job;
          job_desc = job_description job;
          level = estimate_experience_level job_desc (Some job_title)
      in case skills resume of
           None \<Rightarrow> Inl KeyError
         | Some sk \<Rightarrow>
             (let s = calculate_skill_match sk job_desc (Some job_title) None
              in case experience_years resume of
                   None \<Rightarrow> Inl KeyError
                 | Some years \<Rightarrow>
                     (let e = calculate_experience_match years (Some level);
                          t = calculate_title_match (Some job_title)
                                (case desired_roles resume of None \<Rightarrow> [] | Some ds \<Rightarrow> ds)
                      in Inr \<lparr> overall = s * (50/100) + e * (30/100) + t * (20/100),
                               skill_score = s,
                               exp_score = e,
                               title_score = t,
                               estimated_level = level \<rparr>)))"

section \<open>The ranking pass\<close>

text \<open>\<open>DataFrame.head(n)\<close> is \<open>iloc[:n]\<close>: the first \<open>n\<close> rows, and for a negative
  \<open>n\<close> all rows but the last \<open>-n\<close>.\<close>

definition head :: "int \<Rightarrow> 'a list \<Rightarrow> 'a list" where
  "head n xs = (if 0 \<le> n then take (nat n) xs else take (length xs - nat (- n)) xs)"

text \<open>The row appended to \<open>results\<close> for a job that passed the threshold.\<close>

definition result_row :: "job_row \<Rightarrow> scores \<Rightarrow> match_result" where
  "result_row job sc =
     \<lparr> res_title = resolved_title job,
       res_company = company job,
       res_location = location job,
       experience_level = estimated_level sc,
       res_description = job_description job,
       res_post_link = post_link job,
       res_keywords = keywords_cell job,
       match_score = overall sc,
       res_skill_score = skill_score sc,
       res_exp_score = exp_score sc,
       res_title_score = title_score sc \<rparr>"

text \<open>The loop over \<open>jobs_df.iterrows()\<close>: rows are scored in catalog order, a row is
  appended when its score reaches \<open>min_score\<close>, and an exception of the scorer ends the
  loop.\<close>

fun collect_results ::
  "resume_data \<Rightarrow> rat \<Rightarrow> match_result list \<Rightarrow> job_row list \<Rightarrow> error + match_result list" where
  "collect_results resume min_score results [] = Inr results"
| "collect_results resume min_score results (job # jobs) =
     (case calculate_overall_score resume job of
        Inl e \<Rightarrow> Inl e
      | Inr sc \<Rightarrow>
          if overall sc \<ge> min_score
          then collect_results resume min_score (results @ [result_row job sc]) jobs
          else collect_results resume min_score results jobs)"

text \<open>
  \<open>finding_matching_jobs\<close>. The frame is ordered by
  \<open>sort_values('match_score', ascending=False)\<close>, a pandas routine called with its
  default sorting kind; the embedding takes that routine as the parameter
  \<open>sort_values\<close>.
\<close>

definition finding_matching_jobs ::
  "(match_result list \<Rightarrow> match_result list) \<Rightarrow> job_row list \<Rightarrow> resume_data \<Rightarrow> int \<Rightarrow> rat
     \<Rightarrow> error + match_result list" where
  "finding_matching_jobs sort_values jobs_df resume top_n min_score =
     (case collect_results resume min_score [] jobs_df of
        Inl e \<Rightarrow> Inl e
      | Inr results \<Rightarrow>
          if length results = 0 then Inr []
          else Inr (head top_n (sort_values results)))"

text \<open>Two notions used to state what the ranking pass returns: a posting passes when
  the scorer returns for it and its overall score reaches \<open>min_score\<close>; its row is the
  row the loop appends for it.\<close>

definition passes :: "resume_data \<Rightarrow> rat \<Rightarrow> job_row \<Rightarrow> bool" where
  "passes resume min_score job =
     (case calculate_overall_score resume job of
        Inr sc \<Rightarrow> min_score \<le> overall sc
      | Inl e \<Rightarrow> False)"

definition row_of :: "resume_data \<Rightarrow> job_row \<Rightarrow> match_result" where
  "row_of resume job = result_row job (projr (calculate_overall_score resume job))"

text \<open>One sorting routine that orders rows by descending \<open>match_score\<close>, used to run
  the ranking pass on sample catalogs.\<close>

definition sort_desc :: "match_result list \<Rightarrow> match_result list" where
  "sort_desc rs = sort_key (\<lambda>r. - match_score r) rs"

section \<open>Reference formulations\<close>

text \<open>
  The definitions of this section are not translations of the source. They restate, in
  the words of the specification, what the functions above are said to compute; the
  theorems below compare the two.
\<close>

text \<open>The band table: level, minimum and maximum years.\<close>

definition band_of :: "string \<Rightarrow> (rat \<times> rat) option" where
  "band_of lv =
     (if lv = ''Internship'' then Some (0, 1)
      else if lv = ''Entry level'' then Some (0, 2)
      else if lv = ''Associate'' then Some (1, 3)
      else if lv = ''Mid-Senior level'' then Some (3, 8)
      else if lv = ''Director'' then Some (8, 15)
      else if lv = ''Executive'' then Some (15, 30)
      else None)"

text \<open>The stepwise decay for a gap below the minimum and for a gap above the maximum.\<close>

definition below_min_score :: "rat \<Rightarrow> rat" where
  "below_min_score gap =
     (if gap \<le> 1/2 then 95/100 else if gap \<le> 1 then 85/100
      else if gap \<le> 3/2 then 70/100 else if gap \<le> 2 then 55/100 else 30/100)"

definition above_max_score :: "rat \<Rightarrow> rat" where
  "above_max_score gap =
     (if gap \<le> 1 then 90/100 else if gap \<le> 2 then 75/100
      else if gap \<le> 3 then 60/100 else 40/100)"

text \<open>The experience score read off the table; a missing or unknown level gives 0.5.\<close>

definition band_table_score :: "rat \<Rightarrow> string option \<Rightarrow> rat" where
  "band_table_score years level =
     (case Option.bind level band_of of
        None \<Rightarrow> 1/2
      | Some (lo, hi) \<Rightarrow>
          if years < lo then below_min_score (lo - years)
          else if hi < years then above_max_score (years - hi)
          else 1)"

text \<open>The keyword sets of the level estimator in their priority order, and the scan
  that returns the label of the first set with a keyword occurring in the text.\<close>

definition level_keyword_sets :: "(string list \<times> string) list" where
  "level_keyword_sets =
     [([''intern'', ''internship''], ''Internship''),
      ([''entry level'', ''junior'', ''graduate'', ''associate''], ''Entry level''),
      ([''senior'', ''sr.'', ''lead'', ''principal''], ''Mid-Senior level''),
      ([''director'', ''head of'', ''vp'', ''vice president''], ''Director''),
      ([''chief'', ''cto'', ''ceo'', ''executive''], ''Executive'')]"

fun first_matching_band :: "(string list \<times> string) list \<Rightarrow> string \<Rightarrow> string" where
  "first_matching_band [] combined = ''Mid-Senior level''"
| "first_matching_band ((ws, label) # rest) combined =
     (if list_ex (\<lambda>w. contains w combined) ws then label
      else first_matching_band rest combined)"

text \<open>The text the estimator scans: description, a blank, title, in lower case.\<close>

definition level_text :: "string option \<Rightarrow> string option \<Rightarrow> string" where
  "level_text job_desc job_title =
     lower ((case job_desc of None \<Rightarrow> [] | Some x \<Rightarrow> x) @ '' '' @
            (case job_title of None \<Rightarrow> [] | Some x \<Rightarrow> x))"

text \<open>The first line of a text, and the fallback title as the specification words it:
  the first line of the description, trimmed, cut to 100 characters.\<close>

definition first_line :: "string \<Rightarrow> string" where
  "first_line s = takeWhile (\<lambda>c. c \<noteq> CHR 0x0A) s"

definition first_line_title :: "string \<Rightarrow> string" where
  "first_line_title d = take 100 (strip (first_line d))"

section \<open>Sample inputs\<close>

definition sample_resume :: resume_data where
  "sample_resume =
     \<lparr> skills = Some [''python''], experience_years = Some 4, desired_roles = Some [] \<rparr>"

definition sample_job :: job_row where
  "sample_job =
     \<lparr> category = Some ''Engineer'', job_description = Some ''Backend developer'',
       company = None, location = None, post_link = None,
       keywords_cell = Some ''python, sql'' \<rparr>"

definition untitled_job :: job_row where
  "untitled_job =
     \<lparr> category = None,
       job_description = Some ''Looking for a Python developer with SQL skills'',
       company = None, location = None, post_link = None, keywords_cell = None \<rparr>"

definition sample_catalog :: "job_row list" where
  "sample_catalog = [sample_job, untitled_job, sample_job]"

section \<open>Evaluation of the string primitives\<close>

lemma lower_test: "lower ''Sr. Data ENGINEER'' = ''sr. data engineer''"
  by (simp add: lower_def lower_char_def)

lemma split_ws_test: "split_ws ''  data   engineer ii '' = [''data'', ''engineer'', ''ii'']"
  by (simp add: split_ws_def is_space_def)

lemma contains_test: "contains ''go'' ''google'' \<and> \<not> contains ''sql'' ''python dev''"
  by simp


section \<open>Auxiliary facts\<close>

lemma card_common:
  "card (set xs \<inter> set ys) = length (remdups (filter (\<lambda>w. w \<in> set ys) xs))"
proof -
  have "set xs \<inter> set ys = set (filter (\<lambda>w. w \<in> set ys) xs)" by auto
  then show ?thesis by (simp add: length_remdups_card_conv)
qed

lemma map_of_level_ranges: "map_of level_ranges lv = band_of lv"
  by (simp add: level_ranges_def band_of_def)

lemma band_of_empty: "band_of [] = None"
  by (simp add: band_of_def)

lemma estimate_cases:
  "estimate_experience_level d t = ''Internship'' \<or>
   estimate_experience_level d t = ''Entry level'' \<or>
   estimate_experience_level d t = ''Mid-Senior level'' \<or>
   estimate_experience_level d t = ''Director'' \<or>
   estimate_experience_level d t = ''Executive''"
  by (simp add: estimate_experience_level_def Let_def)

lemma known_level_not_neutral:
  assumes m: "map_of level_ranges lv = Some b"
  shows "calculate_experience_match y (Some lv) \<noteq> 1/2"
proof -
  have ne: "lv \<noteq> []" using m by (auto simp add: level_ranges_def)
  obtain lo hi where b: "b = (lo, hi)" by (cases b)
  show ?thesis using m ne b by (simp add: calculate_experience_match_def Let_def)
qed

lemma split_nl_acc_first:
  "\<exists>rest. split_nl_acc cur s = (cur @ first_line s) # rest"
proof (induction s arbitrary: cur)
  case Nil
  show ?case by (simp add: first_line_def)
next
  case (Cons c cs)
  show ?case
  proof (cases "c = CHR 0x0A")
    case True
    then show ?thesis by (simp add: first_line_def)
  next
    case False
    obtain rest where "split_nl_acc (cur @ [c]) cs = ((cur @ [c]) @ first_line cs) # rest"
      using Cons.IH [of "cur @ [c]"] by blast
    then show ?thesis using False by (simp add: first_line_def)
  qed
qed

lemma split_nl_first: "\<exists>rest. split_nl s = first_line s # rest"
  using split_nl_acc_first [of "[]" s] by (simp add: split_nl_def)

lemma extract_title_Some:
  "extract_title_from_description (Some d) = take 100 (strip (first_line (take 200 d)))"
proof -
  obtain rest where "split_nl (take 200 d) = first_line (take 200 d) # rest"
    using split_nl_first by blast
  then show ?thesis by (simp add: extract_title_from_description_def Let_def)
qed

lemma first_line_take: "first_line (take n s) = take n (first_line s)"
  unfolding first_line_def
  by (induction s arbitrary: n) (auto simp add: take_Cons split: nat.splits)

lemma extract_title_short:
  assumes "length (first_line d) \<le> 200"
  shows "extract_title_from_description (Some d) = first_line_title d"
  using assms by (simp add: extract_title_Some first_line_take first_line_title_def)

lemma strip_blank: "strip (replicate n CHR '' '') = []"
  by (simp add: strip_def is_space_def)

lemma skill_match_range:
  "0 \<le> calculate_skill_match sk d t k \<and> calculate_skill_match sk d t k \<le> 1"
proof (cases "sk = []")
  case True
  then show ?thesis by (simp add: calculate_skill_match_def)
next
  case False
  then have pos: "0 < length sk" by simp
  show ?thesis using False pos
    by (simp add: calculate_skill_match_def Let_def)
qed

lemma experience_match_range:
  "0 \<le> calculate_experience_match y lv \<and> calculate_experience_match y lv \<le> 1"
  by (simp add: calculate_experience_match_def Let_def split: option.splits prod.splits)

lemma title_scan_range: "0 \<le> title_scan t ds \<and> title_scan t ds \<le> 1"
  by (induction ds) (simp_all add: Let_def)

lemma title_match_range:
  "0 \<le> calculate_title_match t ds \<and> calculate_title_match t ds \<le> 1"
  by (simp add: calculate_title_match_def title_scan_range split: option.splits)

lemma weighted_range:
  fixes s e t :: rat
  assumes "0 \<le> s" "s \<le> 1" "0 \<le> e" "e \<le> 1" "0 \<le> t" "t \<le> 1"
  shows "0 \<le> s * (50/100) + e * (30/100) + t * (20/100)
       \<and> s * (50/100) + e * (30/100) + t * (20/100) \<le> 1"
  using assms by simp

text \<open>With the keys \<open>skills\<close> and \<open>experience_years\<close> present the scorer returns, and
  this is the dictionary it returns.\<close>

lemma overall_score_Inr:
  assumes "skills resume = Some sk" and "experience_years resume = Some years"
  shows "calculate_overall_score resume job =
     Inr \<lparr> overall =
             calculate_skill_match sk (job_description job) (Some (resolved_title job)) None
               * (50/100)
           + calculate_experience_match years
               (Some (estimate_experience_level (job_description job)
                        (Some (resolved_title job)))) * (30/100)
           + calculate_title_match (Some (resolved_title job))
               (case desired_roles resume of None \<Rightarrow> [] | Some ds \<Rightarrow> ds) * (20/100),
           skill_score =
             calculate_skill_match sk (job_description job) (Some (resolved_title job)) None,
           exp_score = calculate_experience_match years
               (Some (estimate_experience_level (job_description job)
                        (Some (resolved_title job)))),
           title_score = calculate_title_match (Some (resolved_title job))
               (case desired_roles resume of None \<Rightarrow> [] | Some ds \<Rightarrow> ds),
           estimated_level =
             estimate_experience_level (job_description job) (Some (resolved_title job)) \<rparr>"
  using assms by (simp add: calculate_overall_score_def Let_def)

text \<open>A score dictionary is returned only for a resume that has both keys.\<close>

lemma overall_score_InrD:
  assumes "calculate_overall_score resume job = Inr sc"
  shows "\<exists>sk years. skills resume = Some sk \<and> experience_years resume = Some years"
  using assms
  by (simp add: calculate_overall_score_def Let_def split: option.splits)

lemma sample_resume_keys:
  "skills sample_resume = Some [''python'']" "experience_years sample_resume = Some 4"
  by (simp_all add: sample_resume_def)

section \<open>The aggregated score\<close>

text \<open>
  Claim C2. For every resume profile (with the keys the scorer reads) and every
  posting, the scorer returns, and the overall score it returns is 0.50 times the skill
  score plus 0.30 times the experience score plus 0.20 times the title score, each of
  them the value of the corresponding field scorer on that pair.
\<close>

theorem overall_weighted_sum:
  assumes "skills resume = Some sk" and "experience_years resume = Some years"
  shows "\<exists>sc. calculate_overall_score resume job = Inr sc
     \<and> skill_score sc =
         calculate_skill_match sk (job_description job) (Some (resolved_title job)) None
     \<and> exp_score sc =
         calculate_experience_match years
           (Some (estimate_experience_level (job_description job) (Some (resolved_title job))))
     \<and> title_score sc =
         calculate_title_match (Some (resolved_title job))
           (case desired_roles resume of None \<Rightarrow> [] | Some ds \<Rightarrow> ds)
     \<and> overall sc =
         (50/100) * skill_score sc + (30/100) * exp_score sc + (20/100) * title_score sc"
  unfolding overall_score_Inr [OF assms] by simp

theorem overall_weighted_sum_witness:
  "\<exists>sc. calculate_overall_score sample_resume sample_job = Inr sc
     \<and> overall sc =
         (50/100) * skill_score sc + (30/100) * exp_score sc + (20/100) * title_score sc"
  using overall_weighted_sum [OF sample_resume_keys, of sample_job] by blast

section \<open>Title matching\<close>

text \<open>
  Claim C3. The claim says that a desired role sharing exactly one word with the job
  title only proposes 0.7 and that a later role sharing two words still yields 1.0.
  The loop of \<open>calculate_title_match\<close> returns 0.7 at the first such role: with the
  desired roles "Data Analyst", "Senior Data Engineer" and the title
  "Senior Data Engineer" the score is 0.7, although the second role is the title
  itself.
\<close>

theorem title_scan_returns_at_single_word:
  "calculate_title_match (Some ''Senior Data Engineer'')
     [''Data Analyst'', ''Senior Data Engineer''] = 7/10
   \<and> calculate_title_match (Some ''Senior Data Engineer'')
     [''Senior Data Engineer'', ''Data Analyst''] = 1"
  by (simp add: calculate_title_match_def card_common lower_def lower_char_def
      split_ws_def is_space_def)

section \<open>Skill matching\<close>

text \<open>
  Claim C5. The claim says that in the ranking pass the keywords of a posting, when
  present, are part of the text the skills are matched against.
  \<open>calculate_skill_match\<close> does so when it is given the keywords, but
  \<open>calculate_overall_score\<close> never passes them: for the resume skill "python" and a
  posting with description "Backend developer", title "Engineer" and keywords
  "python, sql" the skill score of the ranking pass is 0, where the field scorer on
  the same posting with its keywords gives 1.
\<close>

theorem ranking_skill_score_ignores_keywords:
  "(case calculate_overall_score sample_resume sample_job of
      Inr sc \<Rightarrow> skill_score sc = 0
    | Inl e \<Rightarrow> False)
   \<and> calculate_skill_match [''python''] (job_description sample_job)
        (Some (resolved_title sample_job)) (keywords_cell sample_job) = 1"
  by (simp add: calculate_overall_score_def sample_resume_def sample_job_def
      resolved_title_def calculate_skill_match_def str_of_def lower_def lower_char_def
      Let_def)

section \<open>Experience matching\<close>

text \<open>
  Claim C6. For every experience value and every level, present or missing, the
  experience score is the one of the band table: 1 inside the band, the stepwise
  decay 0.95, 0.85, 0.70, 0.55, 0.30 below the minimum, 0.90, 0.75, 0.60, 0.40 above
  the maximum, and 0.5 for an unknown or missing level. One year against
  "Mid-Senior level" scores 0.55.
\<close>

theorem experience_band_table:
  "calculate_experience_match years level = band_table_score years level
   \<and> calculate_experience_match 1 (Some ''Mid-Senior level'') = 55/100"
proof
  show "calculate_experience_match years level = band_table_score years level"
  proof (cases level)
    case None
    then show ?thesis by (simp add: calculate_experience_match_def band_table_score_def)
  next
    case (Some lv)
    show ?thesis
    proof (cases "band_of lv")
      case None
      then show ?thesis using Some
        by (simp add: calculate_experience_match_def band_table_score_def map_of_level_ranges)
    next
      case (Some b)
      obtain lo hi where b: "b = (lo, hi)" by (cases b)
      have ne: "lv \<noteq> []" using Some band_of_empty by auto
      show ?thesis using \<open>level = Some lv\<close> Some b ne
        by (auto simp add: calculate_experience_match_def band_table_score_def
            map_of_level_ranges below_min_score_def above_max_score_def Let_def)
    qed
  qed
  show "calculate_experience_match 1 (Some ''Mid-Senior level'') = 55/100"
    by (simp add: calculate_experience_match_def level_ranges_def)
qed

section \<open>The level estimator\<close>

text \<open>
  Claim C7. For every title and description the estimator returns the label of the
  first keyword set, in the fixed priority order, one of whose keywords occurs in
  the lower-cased text made of description and title, and "Mid-Senior level" when no
  keyword of any set occurs.
\<close>

theorem level_first_match_wins:
  "estimate_experience_level job_desc job_title =
     first_matching_band level_keyword_sets (level_text job_desc job_title)"
  by (simp add: estimate_experience_level_def level_keyword_sets_def level_text_def
      any_in_def Let_def)

text \<open>
  Claim C10. The estimator returns one of five labels and never "Associate"; so the
  level handed to the experience scorer in the ranking pass always has a band, that
  band is never the one of "Associate", and the experience score of the pass is never
  the 0.5 of an unknown level.
\<close>

theorem estimated_level_labels:
  "estimate_experience_level d t \<in>
     set [''Internship'', ''Entry level'', ''Mid-Senior level'', ''Director'', ''Executive'']
   \<and> estimate_experience_level d t \<noteq> ''Associate''
   \<and> map_of level_ranges (estimate_experience_level d t) \<noteq> None
   \<and> map_of level_ranges (estimate_experience_level d t) \<noteq> map_of level_ranges ''Associate''
   \<and> calculate_experience_match y (Some (estimate_experience_level d t)) \<noteq> 1/2
   \<and> (calculate_overall_score resume job = Inr sc \<longrightarrow>
        estimated_level sc \<in>
          set [''Internship'', ''Entry level'', ''Mid-Senior level'', ''Director'',
               ''Executive'']
        \<and> estimated_level sc \<noteq> ''Associate''
        \<and> exp_score sc \<noteq> 1/2)"
proof -
  have five: "estimate_experience_level d t \<in>
     set [''Internship'', ''Entry level'', ''Mid-Senior level'', ''Director'', ''Executive'']"
    for d t
    using estimate_cases [of d t] by auto
  have not_assoc: "estimate_experience_level d t \<noteq> ''Associate''" for d t
    using estimate_cases [of d t] by auto
  have band: "map_of level_ranges (estimate_experience_level d t) \<noteq> None
    \<and> map_of level_ranges (estimate_experience_level d t) \<noteq> map_of level_ranges ''Associate''"
    for d t
    using estimate_cases [of d t] by (auto simp add: level_ranges_def)
  have not_half: "calculate_experience_match y (Some (estimate_experience_level d t)) \<noteq> 1/2"
    for y d t
    using band [of d t] known_level_not_neutral by auto
  have pass: "estimated_level sc \<in>
          set [''Internship'', ''Entry level'', ''Mid-Senior level'', ''Director'',
               ''Executive'']
        \<and> estimated_level sc \<noteq> ''Associate'' \<and> exp_score sc \<noteq> 1/2"
    if h: "calculate_overall_score resume job = Inr sc"
  proof -
    obtain sk years where v: "skills resume = Some sk" "experience_years resume = Some years"
      using overall_score_InrD [OF h] by blast
    have lv: "estimated_level sc =
        estimate_experience_level (job_description job) (Some (resolved_title job))"
      and ex: "exp_score sc = calculate_experience_match years
        (Some (estimate_experience_level (job_description job) (Some (resolved_title job))))"
      using h unfolding overall_score_Inr [OF v] by auto
    show ?thesis unfolding lv ex using five not_assoc not_half by blast
  qed
  show ?thesis using five not_assoc band not_half pass by blast
qed

theorem estimated_level_labels_witness:
  "\<exists>sc. calculate_overall_score sample_resume sample_job = Inr sc
     \<and> estimated_level sc \<noteq> ''Associate'' \<and> exp_score sc \<noteq> 1/2"
proof -
  obtain sc where h: "calculate_overall_score sample_resume sample_job = Inr sc"
    using overall_score_Inr [OF sample_resume_keys] by blast
  show ?thesis
    using h estimated_level_labels [of _ _ _ sample_resume sample_job sc] by blast
qed

section \<open>The fallback title\<close>

text \<open>
  Claim C8, as stated, compared on a description that starts with 200 blanks followed
  by "Engineer": the first line of the description, trimmed, is "Engineer", whereas
  the resolver looks at the first 200 characters only and returns the empty string.
\<close>

theorem fallback_title_counterexample:
  "extract_title_from_description (Some (replicate 200 CHR '' '' @ ''Engineer'')) = []
   \<and> first_line_title (replicate 200 CHR '' '' @ ''Engineer'') = ''Engineer''
   \<and> extract_title_from_description (Some (replicate 200 CHR '' '' @ ''Engineer''))
       \<noteq> first_line_title (replicate 200 CHR '' '' @ ''Engineer'')"
proof -
  have code: "extract_title_from_description
      (Some (replicate 200 CHR '' '' @ ''Engineer'')) = []"
    and spec: "first_line_title (replicate 200 CHR '' '' @ ''Engineer'') = ''Engineer''"
  proof -
    have "first_line (replicate 200 CHR '' '') = replicate 200 CHR '' ''"
      by (simp add: first_line_def takeWhile_eq_all_conv)
    then show "extract_title_from_description (Some (replicate 200 CHR '' '' @ ''Engineer'')) = []"
      by (simp add: extract_title_Some strip_blank)
    have fl: "first_line (replicate 200 CHR '' '' @ ''Engineer'')
        = replicate 200 CHR '' '' @ ''Engineer''"
      by (simp add: first_line_def takeWhile_eq_all_conv)
    have "dropWhile is_space (replicate 200 CHR '' '' @ ''Engineer'') = ''Engineer''"
      by (simp add: dropWhile_append is_space_def)
    then have "strip (replicate 200 CHR '' '' @ ''Engineer'') = ''Engineer''"
      by (simp add: strip_def is_space_def)
    then show "first_line_title (replicate 200 CHR '' '' @ ''Engineer'') = ''Engineer''"
      by (simp add: first_line_title_def fl)
  qed
  show ?thesis unfolding code spec by simp
qed

text \<open>
  Claim C8, amended. For a posting whose title is missing or empty the resolved title
  is the resolver's result. Without a description that is "Unknown Position"; with
  one it is the first line of the first 200 characters of the description, trimmed
  and cut to 100 characters. This is the first line of the description itself,
  trimmed and cut, whenever that line has at most 200 characters. The result never
  has more than 100 characters.
\<close>

theorem fallback_title:
  "((category job = None \<or> category job = Some []) \<longrightarrow>
      resolved_title job = extract_title_from_description (job_description job))
   \<and> extract_title_from_description None = ''Unknown Position''
   \<and> extract_title_from_description (Some d) = take 100 (strip (first_line (take 200 d)))
   \<and> length (extract_title_from_description (Some d)) \<le> 100
   \<and> (length (first_line d) \<le> 200 \<longrightarrow>
        extract_title_from_description (Some d) = first_line_title d)"
proof -
  have a: "(category job = None \<or> category job = Some []) \<longrightarrow>
      resolved_title job = extract_title_from_description (job_description job)"
    by (auto simp add: resolved_title_def)
  have b: "extract_title_from_description None = ''Unknown Position''"
    by (simp add: extract_title_from_description_def)
  have c: "length (extract_title_from_description (Some d)) \<le> 100"
    by (simp add: extract_title_Some)
  show ?thesis using a b c extract_title_Some extract_title_short by blast
qed

theorem fallback_title_witness:
  "category untitled_job = None
   \<and> length (first_line ''Looking for a Python developer with SQL skills'') \<le> 200
   \<and> resolved_title untitled_job = ''Looking for a Python developer with SQL skills''"
  using fallback_title [of untitled_job "''Looking for a Python developer with SQL skills''"]
  by (simp add: untitled_job_def first_line_def first_line_title_def strip_def is_space_def)

section \<open>Totality and range of the scores\<close>

text \<open>
  Claim C9. The three field scorers return a value between 0 and 1 on every input,
  and for every resume that has the keys \<open>skills\<close> and \<open>experience_years\<close> and every
  posting the aggregating scorer returns a dictionary (it does not raise) whose four
  scores lie between 0 and 1.
\<close>

theorem scoring_total_and_bounded:
  "(0 \<le> calculate_skill_match sk d t k \<and> calculate_skill_match sk d t k \<le> 1)
   \<and> (0 \<le> calculate_experience_match y lv \<and> calculate_experience_match y lv \<le> 1)
   \<and> (0 \<le> calculate_title_match t ds \<and> calculate_title_match t ds \<le> 1)
   \<and> (skills resume = Some sk \<and> experience_years resume = Some y \<longrightarrow>
        (\<exists>sc. calculate_overall_score resume job = Inr sc
           \<and> 0 \<le> overall sc \<and> overall sc \<le> 1
           \<and> 0 \<le> skill_score sc \<and> skill_score sc \<le> 1
           \<and> 0 \<le> exp_score sc \<and> exp_score sc \<le> 1
           \<and> 0 \<le> title_score sc \<and> title_score sc \<le> 1))"
proof -
  have "\<exists>sc. calculate_overall_score resume job = Inr sc
           \<and> 0 \<le> overall sc \<and> overall sc \<le> 1
           \<and> 0 \<le> skill_score sc \<and> skill_score sc \<le> 1
           \<and> 0 \<le> exp_score sc \<and> exp_score sc \<le> 1
           \<and> 0 \<le> title_score sc \<and> title_score sc \<le> 1"
    if v: "skills resume = Some sk" "experience_years resume = Some y"
  proof -
    let ?s = "calculate_skill_match sk (job_description job) (Some (resolved_title job)) None"
    let ?e = "calculate_experience_match y
               (Some (estimate_experience_level (job_description job)
                        (Some (resolved_title job))))"
    let ?t = "calculate_title_match (Some (resolved_title job))
               (case desired_roles resume of None \<Rightarrow> [] | Some ds \<Rightarrow> ds)"
    have r: "0 \<le> ?s" "?s \<le> 1" "0 \<le> ?e" "?e \<le> 1" "0 \<le> ?t" "?t \<le> 1"
      using skill_match_range experience_match_range title_match_range by blast+
    have w: "0 \<le> ?s * (50/100) + ?e * (30/100) + ?t * (20/100)
       \<and> ?s * (50/100) + ?e * (30/100) + ?t * (20/100) \<le> 1"
      by (rule weighted_range [OF r])
    show ?thesis
      unfolding overall_score_Inr [OF v] using r w by simp
  qed
  then show ?thesis
    using skill_match_range experience_match_range title_match_range by blast
qed

theorem scoring_total_and_bounded_witness:
  "\<exists>sc. calculate_overall_score sample_resume sample_job = Inr sc
     \<and> 0 \<le> overall sc \<and> overall sc \<le> 1"
  using scoring_total_and_bounded [of "[''python'']" _ _ _ 4 _ _ sample_resume sample_job]
    sample_resume_keys by blast

section \<open>The ranking pass\<close>

lemma collect_results_acc:
  assumes "skills resume = Some sk" and "experience_years resume = Some years"
  shows "collect_results resume min_score acc jobs =
           Inr (acc @ map (row_of resume) (filter (passes resume min_score) jobs))"
proof (induction jobs arbitrary: acc)
  case Nil
  show ?case by simp
next
  case (Cons job jobs)
  obtain sc where sc: "calculate_overall_score resume job = Inr sc"
    using overall_score_Inr [OF assms] by blast
  show ?case using sc Cons.IH
    by (simp add: passes_def row_of_def)
qed

lemma passes_row_score:
  assumes "passes resume min_score job"
  shows "min_score \<le> match_score (row_of resume job)"
  using assms
  by (auto simp add: passes_def row_of_def result_row_def split: sum.splits)

lemma head_nonneg: "0 \<le> n \<Longrightarrow> head n xs = take (nat n) xs"
  by (simp add: head_def)

lemma mset_take_subset: "mset (take n xs) \<subseteq># mset xs"
proof -
  have "mset xs = mset (take n xs) + mset (drop n xs)"
    by (metis append_take_drop_id mset_append)
  then show ?thesis by simp
qed

lemma sort_desc_perm: "mset (sort_desc rs) = mset rs"
  by (simp add: sort_desc_def)

lemma sample_job_scores:
  "calculate_overall_score sample_resume sample_job =
     Inr \<lparr> overall = 2/5, skill_score = 0, exp_score = 1, title_score = 1/2,
           estimated_level = ''Mid-Senior level'' \<rparr>"
  by code_simp

lemma untitled_job_scores:
  "calculate_overall_score sample_resume untitled_job =
     Inr \<lparr> overall = 9/10, skill_score = 1, exp_score = 1, title_score = 1/2,
           estimated_level = ''Mid-Senior level'' \<rparr>"
  by code_simp

text \<open>
  Claim C1. For every resume profile (with the keys the scorer reads), catalog,
  \<open>top_n\<close> (a count, \<open>0 \<le> top_n\<close>) and \<open>min_score\<close>, and for every sorting routine
  that returns a rearrangement of its input: the ranking pass returns normally; its
  result set holds the rows of exactly the postings whose overall score is at least
  \<open>min_score\<close>, in catalog order, so that every posting left out has a score below
  \<open>min_score\<close>; the returned rows are rows of the result set, each with a score of at
  least \<open>min_score\<close>; their number is the minimum of \<open>top_n\<close> and the number of
  postings that reach the threshold; and when no posting reaches it the returned
  sequence is empty.
\<close>

theorem ranking_threshold_and_truncation:
  assumes keys: "skills resume = Some sk" "experience_years resume = Some years"
    and perm: "\<And>rs. mset (sort_values rs) = mset rs"
    and top: "0 \<le> top_n"
  shows "\<exists>results out.
      collect_results resume min_score [] jobs_df = Inr results
    \<and> results = map (row_of resume) (filter (passes resume min_score) jobs_df)
    \<and> (\<forall>job \<in> set jobs_df. passes resume min_score job \<longleftrightarrow>
          (\<exists>sc. calculate_overall_score resume job = Inr sc \<and> min_score \<le> overall sc))
    \<and> (\<forall>job \<in> set jobs_df. \<not> passes resume min_score job \<longleftrightarrow>
          (\<exists>sc. calculate_overall_score resume job = Inr sc \<and> overall sc < min_score))
    \<and> finding_matching_jobs sort_values jobs_df resume top_n min_score = Inr out
    \<and> mset out \<subseteq># mset results
    \<and> (\<forall>r \<in> set out. min_score \<le> match_score r)
    \<and> length out = min (nat top_n) (length (filter (passes resume min_score) jobs_df))
    \<and> (filter (passes resume min_score) jobs_df = [] \<longrightarrow> out = [])"
proof -
  let ?results = "map (row_of resume) (filter (passes resume min_score) jobs_df)"
  let ?out = "if ?results = [] then [] else head top_n (sort_values ?results)"
  have c: "collect_results resume min_score [] jobs_df = Inr ?results"
    using collect_results_acc [OF keys, of min_score "[]" jobs_df] by simp
  have f: "finding_matching_jobs sort_values jobs_df resume top_n min_score = Inr ?out"
    by (simp add: finding_matching_jobs_def c)
  have o: "?out = take (nat top_n) (sort_values ?results)"
  proof (cases "?results = []")
    case True
    have "mset (sort_values []) = mset ([] :: match_result list)" by (rule perm)
    then have "sort_values [] = []" by simp
    then show ?thesis using True by simp
  next
    case False
    then show ?thesis using top by (simp add: head_nonneg)
  qed
  have len: "length (sort_values ?results) = length ?results"
    using perm [of ?results] by (metis size_mset)
  have sub: "mset ?out \<subseteq># mset ?results"
    unfolding o using mset_take_subset [of "nat top_n" "sort_values ?results"] perm by simp
  have sc: "\<forall>r \<in> set ?results. min_score \<le> match_score r"
    using passes_row_score by auto
  have sc_out: "\<forall>r \<in> set ?out. min_score \<le> match_score r"
    using sc sub by (meson mset_subset_eqD in_multiset_in_set)
  have l: "length ?out = min (nat top_n) (length (filter (passes resume min_score) jobs_df))"
    unfolding o using len by simp
  have e: "filter (passes resume min_score) jobs_df = [] \<longrightarrow> ?out = []"
    by simp
  have p1: "\<forall>job \<in> set jobs_df. passes resume min_score job \<longleftrightarrow>
          (\<exists>sc. calculate_overall_score resume job = Inr sc \<and> min_score \<le> overall sc)"
    by (auto simp add: passes_def split: sum.splits)
  have p2: "\<forall>job \<in> set jobs_df. \<not> passes resume min_score job \<longleftrightarrow>
          (\<exists>sc. calculate_overall_score resume job = Inr sc \<and> overall sc < min_score)"
  proof
    fix job
    obtain s where s: "calculate_overall_score resume job = Inr s"
      using overall_score_Inr [OF keys] by blast
    show "\<not> passes resume min_score job \<longleftrightarrow>
          (\<exists>sc. calculate_overall_score resume job = Inr sc \<and> overall sc < min_score)"
      using s by (auto simp add: passes_def)
  qed
  show ?thesis using c f sub sc_out l e p1 p2 by blast
qed

theorem ranking_threshold_and_truncation_witness:
  "skills sample_resume = Some [''python'']
   \<and> experience_years sample_resume = Some 4
   \<and> (0::int) \<le> 2
   \<and> (\<exists>out. finding_matching_jobs sort_desc sample_catalog sample_resume 2 (1/2) = Inr out
         \<and> length out = 1
         \<and> (\<forall>r \<in> set out. 1/2 \<le> match_score r))"
proof -
  have top: "(0::int) \<le> 2" by simp
  have n: "filter (passes sample_resume (1/2)) sample_catalog = [untitled_job]"
    by (simp add: sample_catalog_def passes_def sample_job_scores untitled_job_scores)
  show ?thesis
    using ranking_threshold_and_truncation
      [OF sample_resume_keys sort_desc_perm top, of "1/2" sample_catalog]
      n sample_resume_keys
    by auto
qed

end
